theory Spec2Isabelle
  imports Complex_Main "HOL-Library.Product_Lexorder"
begin

section \<open>Data model\<close>

text \<open>
  A calendar date is the triple (year, month, day). Its order is the lexicographic one,
  which is the chronological order of \<^verbatim>\<open>datetime.date\<close> and of the timestamps
  that \<^verbatim>\<open>pd.to_datetime\<close> makes of them. Amounts are Python floats; they are
  modelled as real numbers, so rounding is not part of the model. What is stated below
  are comparisons, branches and sums taken in the order in which the code takes them;
  no identity between two different ways of computing a number is stated, since floats
  need not satisfy it.
\<close>

type_synonym date = "nat \<times> nat \<times> nat"

text \<open>The five options of the \<^verbatim>\<open>Trade Type\<close> select box, with the string of each.\<close>

datatype trade_type = W2R | W1R | L1R | L2R | Custom

fun label :: "trade_type \<Rightarrow> string" where
  "label W2R = ''W2R''"
| "label W1R = ''W1R''"
| "label L1R = ''L1R''"
| "label L2R = ''L2R''"
| "label Custom = ''Custom $''"

text \<open>One row of \<^verbatim>\<open>st.session_state.trades\<close>.\<close>

record trade =
  Date :: date
  Type :: trade_type
  R_Value :: "real option"
  Amount :: real
  Image_str :: "string option"
  Notes :: string

datatype error = ValidationError | ValueError

section \<open>The form: widgets and amount calculation\<close>

text \<open>
  \<^verbatim>\<open>st.number_input\<close>: \<open>entry\<close> is what the user typed, \<open>None\<close> for a widget left
  untouched, which then returns its initial value. A number below \<open>min_value\<close> is
  refused by the widget, which keeps the value it had. The R widget is created with
  \<^verbatim>\<open>min_value=0.01\<close> and \<^verbatim>\<open>value=None\<close>; the P&L widget has no \<^verbatim>\<open>min_value\<close> and
  no \<^verbatim>\<open>value\<close>, so it starts at 0.0.
\<close>

definition number_input :: "real option \<Rightarrow> real option \<Rightarrow> real option \<Rightarrow> real option" where
  "number_input min_value initial entry =
     (case entry of
        None \<Rightarrow> initial
      | Some v \<Rightarrow>
          (case min_value of
             None \<Rightarrow> Some v
           | Some m \<Rightarrow> if m \<le> v then Some v else initial))"

text \<open>What the form holds when \<^verbatim>\<open>Save Trade\<close> is pressed.\<close>

record form =
  trade_type :: trade_type
  r_entry :: "real option"
  pnl_entry :: "real option"
  trade_date :: date
  uploaded_image :: "string option"
  notes_text :: string

text \<open>\<^verbatim>\<open>trade_type[1:-1]\<close> and \<^verbatim>\<open>trade_type.startswith("W")\<close>.\<close>

definition slice_1_m1 :: "string \<Rightarrow> string" where
  "slice_1_m1 s = butlast (tl s)"

definition startswith_W :: "string \<Rightarrow> bool" where
  "startswith_W s = (case s of [] \<Rightarrow> False | c # _ \<Rightarrow> c = CHR ''W'')"

text \<open>
  \<^verbatim>\<open>float(s)\<close> on a string of decimal digits; any other string is reported as the
  \<^verbatim>\<open>ValueError\<close> that \<^verbatim>\<open>float\<close> raises on a string it cannot read (the type codes
  only ever give a digit string).
\<close>

definition digit_val :: "char \<Rightarrow> nat option" where
  "digit_val c = (let n = (of_char c :: nat) in if 48 \<le> n \<and> n \<le> 57 then Some (n - 48) else None)"

fun digits_val :: "nat \<Rightarrow> string \<Rightarrow> nat option" where
  "digits_val acc [] = Some acc"
| "digits_val acc (c # cs) =
     (case digit_val c of None \<Rightarrow> None | Some d \<Rightarrow> digits_val (10 * acc + d) cs)"

definition py_float :: "string \<Rightarrow> error + real" where
  "py_float s =
     (if s = [] then Inl ValueError
      else case digits_val 0 s of None \<Rightarrow> Inl ValueError | Some n \<Rightarrow> Inr (real n))"

text \<open>
  Lines 30 to 39: the amount shown in the form. \<open>r_value\<close> is the value of the R widget,
  \<open>pnl\<close> the value of the P&L widget; the result \<open>None\<close> is Python's \<^verbatim>\<open>amount = None\<close>.
\<close>

definition compute_amount :: "trade_type \<Rightarrow> real option \<Rightarrow> real option \<Rightarrow> error + real option" where
  "compute_amount ty r_value pnl =
     (if label ty = ''Custom $'' then Inr pnl
      else case r_value of
        None \<Rightarrow> Inr None
      | Some r \<Rightarrow>
          (case py_float (slice_1_m1 (label ty)) of
             Inl e \<Rightarrow> Inl e
           | Inr multiplier \<Rightarrow>
               Inr (Some (if startswith_W (label ty) then multiplier * r else - multiplier * r))))"

text \<open>
  Lines 48 to 72: saving the trade. The store is returned with the new row appended, or
  \<open>ValidationError\<close> for the message \<^verbatim>\<open>Please enter all required fields\<close>, after which
  the store is as it was. \<open>uploaded_image\<close> is the uploaded file already in base64.
\<close>

definition add_trade :: "trade list \<Rightarrow> form \<Rightarrow> error + trade list" where
  "add_trade trades f =
     (let r_value = number_input (Some (1 / 100)) None (r_entry f);
          pnl = number_input None (Some 0) (pnl_entry f)
      in case compute_amount (trade_type f) r_value pnl of
           Inl e \<Rightarrow> Inl e
         | Inr amount \<Rightarrow>
             if (label (trade_type f) \<noteq> ''Custom $'' \<and> r_value = None) \<or> amount = None
             then Inl ValidationError
             else Inr (trades @
                    [\<lparr>Date = trade_date f, Type = trade_type f, R_Value = r_value,
                      Amount = the amount, Image_str = uploaded_image f, Notes = notes_text f\<rparr>]))"

section \<open>The dashboard: sorted frame and derived columns\<close>

text \<open>
  The frame \<^verbatim>\<open>df\<close> of lines 79 to 85: the trades sorted by date, with the two derived
  columns. \<open>with_columns\<close> is lines 84 and 85, on the trades in the order in which the
  sort of line 81 has left them; \<open>build_df\<close> puts the sort before it. The sort is
  modelled by the stable insertion sort \<open>sort_key\<close>; pandas' default sort promises the
  date order only, not the order of the trades of one day, so what depends on that
  order is stated on \<open>with_columns\<close>, for every order.
\<close>

record row = trade +
  Cumulative_PnL :: real
  Daily_PnL :: real

fun cumsum_from :: "real \<Rightarrow> real list \<Rightarrow> real list" where
  "cumsum_from acc [] = []"
| "cumsum_from acc (x # xs) = (acc + x) # cumsum_from (acc + x) xs"

definition cumsum :: "real list \<Rightarrow> real list" where
  "cumsum xs = cumsum_from 0 xs"

text \<open>\<^verbatim>\<open>df.groupby("Date")["Amount"].transform("sum")\<close>, for the group of date \<open>d\<close>.\<close>

definition group_sum :: "trade list \<Rightarrow> date \<Rightarrow> real" where
  "group_sum df d = sum_list (map Amount (filter (\<lambda>t. Date t = d) df))"

definition with_columns :: "trade list \<Rightarrow> row list" where
  "with_columns df =
     map2 (\<lambda>t c. \<lparr>Date = Date t, Type = Type t, R_Value = R_Value t, Amount = Amount t,
                     Image_str = Image_str t, Notes = Notes t,
                     Cumulative_PnL = c, Daily_PnL = group_sum df (Date t)\<rparr>)
          df (cumsum (map Amount df))"

definition build_df :: "trade list \<Rightarrow> row list" where
  "build_df trades = with_columns (sort_key Date trades)"

section \<open>Time filters\<close>

text \<open>
  \<^verbatim>\<open>dt.to_period\<close> for months, quarters and weeks. A month is (year, month), a quarter
  (year, quarter); a week runs from Monday to Sunday and is numbered from the day
  ordinal of \<^verbatim>\<open>datetime.date\<close>, whose day 1 is a Monday.
\<close>

definition to_period_M :: "date \<Rightarrow> nat \<times> nat" where
  "to_period_M d = (case d of (y, m, _) \<Rightarrow> (y, m))"

definition to_period_Q :: "date \<Rightarrow> nat \<times> nat" where
  "to_period_Q d = (case d of (y, m, _) \<Rightarrow> (y, (m - 1) div 3 + 1))"

definition is_leap :: "nat \<Rightarrow> bool" where
  "is_leap y = (y mod 4 = 0 \<and> (y mod 100 \<noteq> 0 \<or> y mod 400 = 0))"

definition days_in_month :: "nat \<Rightarrow> nat \<Rightarrow> nat" where
  "days_in_month y m =
     (if m = 2 then (if is_leap y then 29 else 28)
      else if m = 4 \<or> m = 6 \<or> m = 9 \<or> m = 11 then 30 else 31)"

definition toordinal :: "date \<Rightarrow> int" where
  "toordinal d =
     (case d of (y, m, dd) \<Rightarrow>
        (let y1 = int y - 1
         in y1 * 365 + y1 div 4 - y1 div 100 + y1 div 400
            + int (sum_list (map (days_in_month y) [1..<m])) + int dd))"

definition to_period_W :: "date \<Rightarrow> int" where
  "to_period_W d = (toordinal d - 1) div 7"

text \<open>
  The choice of the \<^verbatim>\<open>Filter By\<close> box with the value of the widget beside it. The
  date-range widget returns a tuple of dates, which need not have two elements.
\<close>

datatype time_filter =
  Weekly int | Monthly "nat \<times> nat" | Quarterly "nat \<times> nat" | Custom_Range "date list"

definition filter_trades :: "bool \<Rightarrow> time_filter \<Rightarrow> row list \<Rightarrow> row list" where
  "filter_trades show_all time_filter df =
     (if \<not> show_all then
        (case time_filter of
           Weekly selected_week \<Rightarrow> filter (\<lambda>r. to_period_W (Date r) = selected_week) df
         | Monthly selected_month \<Rightarrow> filter (\<lambda>r. to_period_M (Date r) = selected_month) df
         | Quarterly selected_quarter \<Rightarrow> filter (\<lambda>r. to_period_Q (Date r) = selected_quarter) df
         | Custom_Range date_range \<Rightarrow>
             if length date_range = 2
             then filter (\<lambda>r. date_range ! 0 \<le> Date r \<and> Date r \<le> date_range ! 1) df
             else df)
      else df)"

text \<open>
  The dates whose rows \<open>filter_trades\<close> keeps: every date with Show All, the dates of
  the chosen period or range else, and every date again for a range that has not two
  bounds.
\<close>

definition selected :: "bool \<Rightarrow> time_filter \<Rightarrow> date \<Rightarrow> bool" where
  "selected show_all time_filter d =
     (if show_all then True
      else
        (case time_filter of
           Weekly selected_week \<Rightarrow> to_period_W d = selected_week
         | Monthly selected_month \<Rightarrow> to_period_M d = selected_month
         | Quarterly selected_quarter \<Rightarrow> to_period_Q d = selected_quarter
         | Custom_Range date_range \<Rightarrow>
             if length date_range = 2 then date_range ! 0 \<le> d \<and> d \<le> date_range ! 1
             else True))"

section \<open>Metrics\<close>

text \<open>A float that may be \<^verbatim>\<open>np.inf\<close>.\<close>

datatype ratio = Finite real | Infinity

record report =
  total_trades :: nat
  winning_trades :: nat
  losing_trades :: nat
  win_rate :: real
  profit_factor :: ratio
  avg_win :: real
  avg_loss :: real
  expectancy :: real
  max_drawdown :: real
  net_pnl :: real

definition total_wins :: "row list \<Rightarrow> real" where
  "total_wins filtered_df = sum_list (map Amount (filter (\<lambda>r. Amount r > 0) filtered_df))"

definition total_losses :: "row list \<Rightarrow> real" where
  "total_losses filtered_df = \<bar>sum_list (map Amount (filter (\<lambda>r. Amount r < 0) filtered_df))\<bar>"

text \<open>\<^verbatim>\<open>cumulative.expanding(min_periods=1).max()\<close>: the running maximum.\<close>

fun expanding_max_from :: "real \<Rightarrow> real list \<Rightarrow> real list" where
  "expanding_max_from m [] = []"
| "expanding_max_from m (c # cs) = max m c # expanding_max_from (max m c) cs"

fun expanding_max :: "real list \<Rightarrow> real list" where
  "expanding_max [] = []"
| "expanding_max (c # cs) = c # expanding_max_from c cs"

definition drawdown :: "row list \<Rightarrow> real list" where
  "drawdown filtered_df =
     (let cumulative = cumsum (map Amount filtered_df);
          peak = expanding_max cumulative
      in map2 (\<lambda>c p. c - p) cumulative peak)"

text \<open>
  Lines 131 to 148 and 161, run only on a frame that is not empty (the minimum of an
  empty series is not a number).
\<close>

definition metrics_block :: "row list \<Rightarrow> report" where
  "metrics_block filtered_df =
     (let total = length filtered_df;
          winning = length (filter (\<lambda>r. Amount r > 0) filtered_df);
          losing = length (filter (\<lambda>r. Amount r < 0) filtered_df);
          rate = (if total > 0 then real winning / real total else 0);
          wins = total_wins filtered_df;
          losses = total_losses filtered_df;
          a_win = (if winning > 0 then wins / real winning else 0);
          a_loss = (if losing > 0 then losses / real losing else 0)
      in \<lparr>total_trades = total,
          winning_trades = winning,
          losing_trades = losing,
          win_rate = rate,
          profit_factor = (if losses > 0 then Finite (wins / losses) else Infinity),
          avg_win = a_win,
          avg_loss = a_loss,
          expectancy = (a_win * rate) + (- a_loss * (1 - rate)),
          max_drawdown = Min (set (drawdown filtered_df)),
          net_pnl = sum_list (map Amount filtered_df)\<rparr>)"

text \<open>
  Line 129 with its \<^verbatim>\<open>else\<close> at line 232: an empty frame gets the warning
  \<^verbatim>\<open>No trades found in selected time period\<close> and no metrics.
\<close>

datatype metrics_view = No_trades_found | Metrics report

definition compute_metrics :: "row list \<Rightarrow> metrics_view" where
  "compute_metrics filtered_df =
     (if filtered_df \<noteq> [] then Metrics (metrics_block filtered_df) else No_trades_found)"

section \<open>Cumulative chart and export\<close>

text \<open>The trace of \<^verbatim>\<open>fig2\<close>: x is the date column, y the cumulative column.\<close>

definition cumulative_chart :: "row list \<Rightarrow> (date \<times> real) list" where
  "cumulative_chart filtered_df = map (\<lambda>r. (Date r, Cumulative_PnL r)) filtered_df"

text \<open>
  \<^verbatim>\<open>df.to_csv(index=False)\<close> as a table of cells: the header, then one line per row of
  the frame. A date is written as year, month and day with leading zeros (four, two and
  two digits: years have at most four digits, months and days at most two); a missing
  value is an empty cell. Numbers are kept as numbers.
\<close>

datatype cell = Str string | Num real | Empty

fun zfill :: "nat \<Rightarrow> nat \<Rightarrow> string" where
  "zfill 0 n = []"
| "zfill (Suc w) n = zfill w (n div 10) @ [''0123456789'' ! (n mod 10)]"

definition isoformat :: "date \<Rightarrow> string" where
  "isoformat d = (case d of (y, m, dd) \<Rightarrow> zfill 4 y @ ''-'' @ zfill 2 m @ ''-'' @ zfill 2 dd)"

definition csv_header :: "cell list" where
  "csv_header = [Str ''Date'', Str ''Type'', Str ''R_Value'', Str ''Amount'', Str ''Image'',
                 Str ''Notes'', Str ''Cumulative_PnL'', Str ''Daily_PnL'']"

definition csv_line :: "row \<Rightarrow> cell list" where
  "csv_line r =
     [Str (isoformat (Date r)), Str (label (Type r)),
      (case R_Value r of None \<Rightarrow> Empty | Some v \<Rightarrow> Num v),
      Num (Amount r),
      (case Image_str r of None \<Rightarrow> Empty | Some s \<Rightarrow> Str s),
      Str (Notes r), Num (Cumulative_PnL r), Num (Daily_PnL r)]"

definition to_csv :: "row list \<Rightarrow> cell list list" where
  "to_csv df = csv_header # map csv_line df"

text \<open>
  The page, lines 75 to 233: nothing but a message without trades, the warning when the
  filter leaves no trade, else the metrics, the chart and the export of the whole frame.
\<close>

datatype page =
  No_trades_recorded
| No_trades_in_period
| Dashboard report "(date \<times> real) list" "cell list list"

definition dashboard :: "trade list \<Rightarrow> bool \<Rightarrow> time_filter \<Rightarrow> page" where
  "dashboard trades show_all time_filter =
     (if trades = [] then No_trades_recorded
      else
        (let df = build_df trades;
             filtered_df = filter_trades show_all time_filter df
         in case compute_metrics filtered_df of
              No_trades_found \<Rightarrow> No_trades_in_period
            | Metrics m \<Rightarrow> Dashboard m (cumulative_chart filtered_df) (to_csv df)))"

definition export_csv :: "trade list \<Rightarrow> cell list list" where
  "export_csv trades = to_csv (build_df trades)"

text \<open>A Custom trade without R value, image or notes: the trades of the examples.\<close>

definition sample_trade :: "date \<Rightarrow> real \<Rightarrow> trade" where
  "sample_trade d a =
     \<lparr>Date = d, Type = Custom, R_Value = None, Amount = a, Image_str = None, Notes = []\<rparr>"

text \<open>
  Journals for the examples: a win, a loss and a win on three days, entered out
  of date order; two wins a month apart; one trade of amount zero.
\<close>

definition journal_three :: "trade list" where
  "journal_three =
     [sample_trade (2024, 1, 3) 300, sample_trade (2024, 1, 1) 200,
      sample_trade (2024, 1, 2) (- 100)]"

definition journal_two :: "trade list" where
  "journal_two = [sample_trade (2024, 1, 1) 100, sample_trade (2024, 2, 1) 50]"

definition journal_zero :: "trade list" where
  "journal_zero = [sample_trade (2024, 1, 1) 0]"

text \<open>Four trades in two weeks, in date order: Monday 5 and Tuesday 6 February 2024,
  then Monday 12 and Wednesday 14 February.\<close>

definition journal_weeks :: "trade list" where
  "journal_weeks =
     [sample_trade (2024, 2, 5) 100, sample_trade (2024, 2, 6) 31,
      sample_trade (2024, 2, 12) 2, sample_trade (2024, 2, 14) 4]"

section \<open>The example journals evaluated\<close>

lemma frame_three:
  "build_df journal_three =
     [\<lparr>Date = (2024, 1, 1), Type = Custom, R_Value = None, Amount = 200,
        Image_str = None, Notes = [], Cumulative_PnL = 200, Daily_PnL = 200\<rparr>,
      \<lparr>Date = (2024, 1, 2), Type = Custom, R_Value = None, Amount = - 100,
        Image_str = None, Notes = [], Cumulative_PnL = 100, Daily_PnL = - 100\<rparr>,
      \<lparr>Date = (2024, 1, 3), Type = Custom, R_Value = None, Amount = 300,
        Image_str = None, Notes = [], Cumulative_PnL = 400, Daily_PnL = 300\<rparr>]"
  by (simp add: journal_three_def build_df_def with_columns_def sample_trade_def cumsum_def group_sum_def)

lemma frame_two:
  "build_df journal_two =
     [\<lparr>Date = (2024, 1, 1), Type = Custom, R_Value = None, Amount = 100,
        Image_str = None, Notes = [], Cumulative_PnL = 100, Daily_PnL = 100\<rparr>,
      \<lparr>Date = (2024, 2, 1), Type = Custom, R_Value = None, Amount = 50,
        Image_str = None, Notes = [], Cumulative_PnL = 150, Daily_PnL = 50\<rparr>]"
  by (simp add: journal_two_def build_df_def with_columns_def sample_trade_def cumsum_def group_sum_def)

lemma frame_zero:
  "build_df journal_zero =
     [\<lparr>Date = (2024, 1, 1), Type = Custom, R_Value = None, Amount = 0,
        Image_str = None, Notes = [], Cumulative_PnL = 0, Daily_PnL = 0\<rparr>]"
  by (simp add: journal_zero_def build_df_def with_columns_def sample_trade_def cumsum_def group_sum_def)

lemma metrics_three:
  "metrics_block (build_df journal_three) =
    \<lparr>total_trades = 3, winning_trades = 2, losing_trades = 1,
     win_rate = 2 / 3, profit_factor = Finite 5, avg_win = 250,
     avg_loss = 100, expectancy = 400 / 3, max_drawdown = - 100,
     net_pnl = 400\<rparr>"
  unfolding frame_three
  by (simp add: metrics_block_def total_wins_def total_losses_def drawdown_def cumsum_def)

lemma metrics_two:
  "metrics_block (build_df journal_two) =
    \<lparr>total_trades = 2, winning_trades = 2, losing_trades = 0,
     win_rate = 1, profit_factor = Infinity, avg_win = 75,
     avg_loss = 0, expectancy = 75, max_drawdown = 0, net_pnl = 150\<rparr>"
  unfolding frame_two
  by (simp add: metrics_block_def total_wins_def total_losses_def drawdown_def cumsum_def)

lemma metrics_zero:
  "metrics_block (build_df journal_zero) =
    \<lparr>total_trades = 1, winning_trades = 0, losing_trades = 0,
     win_rate = 0, profit_factor = Infinity, avg_win = 0,
     avg_loss = 0, expectancy = 0, max_drawdown = 0, net_pnl = 0\<rparr>"
  unfolding frame_zero
  by (simp add: metrics_block_def total_wins_def total_losses_def drawdown_def cumsum_def)

lemma frames_nonempty:
  "build_df journal_three \<noteq> []" "build_df journal_two \<noteq> []" "build_df journal_zero \<noteq> []"
  by (simp_all add: frame_three frame_two frame_zero)

lemma losses_three: "total_losses (build_df journal_three) = 100"
  by (simp add: frame_three total_losses_def)


section \<open>Amount calculator\<close>

lemma multiplier_of_label:
  "py_float (slice_1_m1 ''W2R'') = Inr 2"
  "py_float (slice_1_m1 ''L2R'') = Inr 2"
  "py_float (slice_1_m1 ''W1R'') = Inr 1"
  "py_float (slice_1_m1 ''L1R'') = Inr 1"
  by (simp_all add: py_float_def slice_1_m1_def digit_val_def)

lemma startswith_W_label:
  "startswith_W (label ty) = (ty = W2R \<or> ty = W1R)"
  by (cases ty) (simp_all add: startswith_W_def)

lemma label_Custom: "(label ty = ''Custom $'') = (ty = Custom)"
  by (cases ty) simp_all

text \<open>
  C5. For a trade of a type other than Custom with a positive R value, the amount is
  sign * m * r_value, where m is the number in the type code (2 for W2R and L2R, 1 for
  W1R and L1R) and the sign is positive for the W types and negative for the L types.
  For Custom the amount is the supplied custom amount, whatever its sign, zero included.
\<close>

theorem compute_amount_rule:
  "(ty \<noteq> Custom \<longrightarrow> 0 < r \<longrightarrow>
      compute_amount ty (Some r) pnl =
        Inr (Some ((if ty = W2R \<or> ty = W1R then 1 else - 1)
                   * (if ty = W2R \<or> ty = L2R then 2 else 1) * r)))
   \<and> compute_amount Custom r_value (Some c) = Inr (Some c)"
  by (cases ty)
     (simp_all add: compute_amount_def multiplier_of_label startswith_W_def)

theorem compute_amount_rule_witness:
  "compute_amount W2R (Some 50) None = Inr (Some 100)
   \<and> compute_amount L1R (Some 75) None = Inr (Some (- 75))
   \<and> compute_amount Custom (Some 50) (Some (- 20)) = Inr (Some (- 20))"
  using compute_amount_rule [of W2R 50 None "Some 50" "- 20"]
        compute_amount_rule [of L1R 75 None None 0]
  by simp

section \<open>Drawdown\<close>

lemma length_cumsum_from [simp]: "length (cumsum_from acc xs) = length xs"
  by (induction xs arbitrary: acc) simp_all

lemma length_expanding_max_from [simp]: "length (expanding_max_from m cs) = length cs"
  by (induction cs arbitrary: m) simp_all

lemma expanding_max_Cons: "expanding_max (c # cs) = expanding_max_from c (c # cs)"
  by simp

lemma drawdown_Cons:
  "drawdown (r # rs) =
     0 # map2 (\<lambda>c p. c - p) (cumsum_from (Amount r) (map Amount rs))
            (expanding_max_from (Amount r) (cumsum_from (Amount r) (map Amount rs)))"
  by (simp add: drawdown_def cumsum_def)

lemma drawdown_nonempty: "fd \<noteq> [] \<Longrightarrow> drawdown fd \<noteq> []"
  by (cases fd) (simp_all add: drawdown_Cons)

lemma dd_from_nonpos:
  "x \<in> set (map2 (\<lambda>c p. c - p) cs (expanding_max_from m cs)) \<Longrightarrow> x \<le> 0"
  by (induction cs arbitrary: m) auto

lemma expanding_max_from_sorted:
  "sorted cs \<Longrightarrow> \<forall>c \<in> set cs. m \<le> c \<Longrightarrow> expanding_max_from m cs = cs"
  by (induction cs arbitrary: m) (auto simp: max_def)

lemma expanding_max_sorted: "sorted cs \<Longrightarrow> expanding_max cs = cs"
  by (cases cs) (auto simp: expanding_max_from_sorted)

lemma map2_diff_self: "set (map2 (\<lambda>c p. c - p) cs cs) \<subseteq> {0::real}"
  by (induction cs) auto

lemma drawdown_nonpos: "x \<in> set (drawdown fd) \<Longrightarrow> x \<le> 0"
proof (cases fd)
  case Nil
  then show "x \<in> set (drawdown fd) \<Longrightarrow> x \<le> 0"
    by (simp add: drawdown_def cumsum_def)
next
  case (Cons r rs)
  assume "x \<in> set (drawdown fd)"
  then have "x = 0 \<or> x \<in> set (map2 (\<lambda>c p. c - p) (cumsum_from (Amount r) (map Amount rs))
            (expanding_max_from (Amount r) (cumsum_from (Amount r) (map Amount rs))))"
    unfolding Cons drawdown_Cons by simp
  then show "x \<le> 0"
    using dd_from_nonpos by blast
qed

lemma drawdown_hd: "fd \<noteq> [] \<Longrightarrow> 0 \<in> set (drawdown fd)"
  by (cases fd) (simp_all add: drawdown_Cons)

lemma max_drawdown_nonpos: "fd \<noteq> [] \<Longrightarrow> Min (set (drawdown fd)) \<le> 0"
  using drawdown_hd [of fd] by (simp add: Min_le)

lemma max_drawdown_zero:
  assumes "fd \<noteq> []" "sorted (cumsum (map Amount fd))"
  shows "Min (set (drawdown fd)) = 0"
proof -
  have "drawdown fd = map2 (\<lambda>c p. c - p) (cumsum (map Amount fd)) (cumsum (map Amount fd))"
    using assms(2) by (simp add: drawdown_def Let_def expanding_max_sorted)
  then have "set (drawdown fd) \<subseteq> {0}"
    using map2_diff_self by simp
  moreover have "0 \<in> set (drawdown fd)"
    using assms(1) by (rule drawdown_hd)
  ultimately have "set (drawdown fd) = {0}" by auto
  then show ?thesis by simp
qed

lemma max_drawdown_field: "max_drawdown (metrics_block fd) = Min (set (drawdown fd))"
  by (simp add: metrics_block_def Let_def)

text \<open>
  C8. The max_drawdown field of a metrics report is at most 0, and it is 0 whenever the
  running cumulative sum of the amounts, in the order of the filtered frame (date order),
  never decreases.
\<close>

theorem max_drawdown_bound:
  "compute_metrics filtered_df = Metrics m \<Longrightarrow>
     max_drawdown m \<le> 0
     \<and> (sorted (cumsum (map Amount filtered_df)) \<longrightarrow> max_drawdown m = 0)"
  by (auto simp: compute_metrics_def max_drawdown_field max_drawdown_nonpos max_drawdown_zero
           split: if_splits)

theorem max_drawdown_bound_witness:
  "compute_metrics (build_df journal_two) = Metrics (metrics_block (build_df journal_two))
   \<and> sorted (cumsum (map Amount (build_df journal_two)))
   \<and> max_drawdown (metrics_block (build_df journal_two)) = 0
   \<and> compute_metrics (build_df journal_three) = Metrics (metrics_block (build_df journal_three))
   \<and> max_drawdown (metrics_block (build_df journal_three)) \<le> 0"
proof -
  have two: "compute_metrics (build_df journal_two) = Metrics (metrics_block (build_df journal_two))"
    by (simp add: compute_metrics_def frames_nonempty)
  have three: "compute_metrics (build_df journal_three) = Metrics (metrics_block (build_df journal_three))"
    by (simp add: compute_metrics_def frames_nonempty)
  have s: "sorted (cumsum (map Amount (build_df journal_two)))"
    by (simp add: frame_two cumsum_def)
  show ?thesis
    using max_drawdown_bound [OF two] max_drawdown_bound [OF three] two three s by simp
qed

section \<open>Profit factor\<close>

lemma total_losses_nonneg: "0 \<le> total_losses fd"
  by (simp add: total_losses_def)

text \<open>
  C2, as the code has it. The profit_factor field is the infinity of \<^verbatim>\<open>np.inf\<close>
  exactly when total_losses is 0, whether or not there are wins; otherwise it is
  total_wins / total_losses.
\<close>

theorem profit_factor_no_losses:
  "compute_metrics filtered_df = Metrics m \<Longrightarrow>
     ((profit_factor m = Infinity) = (total_losses filtered_df = 0))
     \<and> (total_losses filtered_df \<noteq> 0 \<longrightarrow>
          profit_factor m = Finite (total_wins filtered_df / total_losses filtered_df))"
  using total_losses_nonneg [of filtered_df]
  by (auto simp: compute_metrics_def metrics_block_def Let_def split: if_splits)

theorem profit_factor_no_losses_witness:
  "compute_metrics (build_df journal_three) = Metrics (metrics_block (build_df journal_three))
   \<and> total_losses (build_df journal_three) \<noteq> 0
   \<and> profit_factor (metrics_block (build_df journal_three)) = Finite 5
   \<and> compute_metrics (build_df journal_two) = Metrics (metrics_block (build_df journal_two))
   \<and> total_losses (build_df journal_two) = 0
   \<and> profit_factor (metrics_block (build_df journal_two)) = Infinity"
proof -
  have three: "compute_metrics (build_df journal_three) = Metrics (metrics_block (build_df journal_three))"
    by (simp add: compute_metrics_def frames_nonempty)
  have two: "compute_metrics (build_df journal_two) = Metrics (metrics_block (build_df journal_two))"
    by (simp add: compute_metrics_def frames_nonempty)
  have l2: "total_losses (build_df journal_two) = 0"
    by (simp add: frame_two total_losses_def)
  show ?thesis
    using profit_factor_no_losses [OF three] profit_factor_no_losses [OF two] three two l2
    by (simp add: losses_three metrics_three)
qed

text \<open>
  The claim as stated asks for 0 when total_wins and total_losses are both 0. One trade
  of amount zero has neither wins nor losses, and the field is infinity.
\<close>

theorem profit_factor_both_zero_counterexample:
  "compute_metrics (build_df journal_zero) = Metrics (metrics_block (build_df journal_zero))
   \<and> total_wins (build_df journal_zero) = 0
   \<and> total_losses (build_df journal_zero) = 0
   \<and> profit_factor (metrics_block (build_df journal_zero)) = Infinity
   \<and> profit_factor (metrics_block (build_df journal_zero)) \<noteq> Finite 0"
  by (simp add: compute_metrics_def frames_nonempty metrics_zero)
     (simp add: frame_zero total_wins_def total_losses_def)

section \<open>The empty frame\<close>

lemma length_build_df: "length (build_df trades) = length trades"
  by (simp add: build_df_def with_columns_def cumsum_def Let_def)

lemma build_df_Nil_iff: "(build_df trades = []) = (trades = [])"
  using length_build_df [of trades] by (metis length_0_conv)

text \<open>
  C3, as the code has it. On an empty filtered frame the metrics are not computed and
  nothing fails: the result is the warning instead of a report, and that happens for
  the empty frame only. On the page the warning appears exactly when there are trades
  and the filter leaves none of them.
\<close>

theorem empty_frame_warning:
  "((compute_metrics filtered_df = No_trades_found) = (filtered_df = []))
   \<and> ((dashboard trades show_all time_filter = No_trades_in_period)
        = (trades \<noteq> [] \<and> filter_trades show_all time_filter (build_df trades) = []))"
  by (auto simp: compute_metrics_def dashboard_def Let_def)

theorem empty_frame_warning_witness:
  "compute_metrics [] = No_trades_found
   \<and> compute_metrics (build_df journal_two) \<noteq> No_trades_found
   \<and> dashboard journal_two False (Custom_Range [(2025, 2, 1), (2025, 2, 28)]) = No_trades_in_period"
  using empty_frame_warning [of "[]" journal_two False "Custom_Range [(2025, 2, 1), (2025, 2, 28)]"]
        empty_frame_warning [of "build_df journal_two" "[]" True "Custom_Range []"]
  by (simp add: frames_nonempty frame_two filter_trades_def) (simp add: journal_two_def)

text \<open>
  The claim as stated asks for a report whose fields are all 0 on the empty frame; no
  such report is returned.
\<close>

theorem empty_frame_counterexample:
  "compute_metrics [] \<noteq>
     Metrics \<lparr>total_trades = 0, winning_trades = 0, losing_trades = 0, win_rate = 0,
              profit_factor = Finite 0, avg_win = 0, avg_loss = 0, expectancy = 0,
              max_drawdown = 0, net_pnl = 0\<rparr>"
  by (simp add: compute_metrics_def)

section \<open>Range filter\<close>

text \<open>
  C7. With a start and an end the range filter keeps exactly the trades whose date d
  has start \<le> d \<le> end, both ends included; with one bound only (or any tuple that
  has not two dates) it returns the whole frame and does not fail.
\<close>

theorem range_filter:
  "filter_trades False (Custom_Range [start, end]) df
     = filter (\<lambda>r. start \<le> Date r \<and> Date r \<le> end) df
   \<and> filter_trades False (Custom_Range [bound]) df = df
   \<and> (length date_range \<noteq> 2 \<longrightarrow> filter_trades False (Custom_Range date_range) df = df)"
  by (simp add: filter_trades_def)

theorem range_filter_witness:
  "filter_trades False (Custom_Range [(2024, 1, 2), (2024, 1, 3)]) (build_df journal_three)
     = tl (build_df journal_three)
   \<and> length ([] :: date list) \<noteq> 2
   \<and> filter_trades False (Custom_Range []) (build_df journal_three) = build_df journal_three"
  using range_filter [of "(2024, 1, 2)" "(2024, 1, 3)" "build_df journal_three" "(2024, 1, 2)" "[]"]
  by (simp add: frame_three)

section \<open>The columns of the frame\<close>

lemma columns_of_map2:
  "length xs = length cs \<Longrightarrow>
     map Amount (map2 (\<lambda>t c. \<lparr>Date = Date t, Type = Type t, R_Value = R_Value t, Amount = Amount t,
                       Image_str = Image_str t, Notes = Notes t,
                       Cumulative_PnL = c, Daily_PnL = g t\<rparr>) xs cs) = map Amount xs
   \<and> map Date (map2 (\<lambda>t c. \<lparr>Date = Date t, Type = Type t, R_Value = R_Value t, Amount = Amount t,
                       Image_str = Image_str t, Notes = Notes t,
                       Cumulative_PnL = c, Daily_PnL = g t\<rparr>) xs cs) = map Date xs
   \<and> map Cumulative_PnL (map2 (\<lambda>t c. \<lparr>Date = Date t, Type = Type t, R_Value = R_Value t, Amount = Amount t,
                       Image_str = Image_str t, Notes = Notes t,
                       Cumulative_PnL = c, Daily_PnL = g t\<rparr>) xs cs) = cs"
  by (induction xs cs rule: list_induct2) simp_all

lemma Amount_with_columns: "map Amount (with_columns df) = map Amount df"
  using columns_of_map2 [of df "cumsum (map Amount df)"]
  by (simp add: with_columns_def cumsum_def)

lemma Date_with_columns: "map Date (with_columns df) = map Date df"
  using columns_of_map2 [of df "cumsum (map Amount df)"]
  by (simp add: with_columns_def cumsum_def)

lemma Cumulative_with_columns: "map Cumulative_PnL (with_columns df) = cumsum (map Amount df)"
  using columns_of_map2 [of df "cumsum (map Amount df)"]
  by (simp add: with_columns_def cumsum_def)

lemma Date_build_df: "map Date (build_df trades) = map Date (sort_key Date trades)"
  by (simp add: build_df_def Date_with_columns)

section \<open>Cumulative series\<close>

lemma filter_trades_selected:
  "filter_trades show_all time_filter rows
     = filter (\<lambda>r. selected show_all time_filter (Date r)) rows"
  by (cases time_filter) (simp_all add: filter_trades_def selected_def)

lemma chart_of_filtered_map2:
  "length xs = length cs \<Longrightarrow>
     cumulative_chart
       (filter (\<lambda>r. P (Date r))
          (map2 (\<lambda>t c. \<lparr>Date = Date t, Type = Type t, R_Value = R_Value t, Amount = Amount t,
                       Image_str = Image_str t, Notes = Notes t,
                       Cumulative_PnL = c, Daily_PnL = g t\<rparr>) xs cs))
     = map (\<lambda>(t, c). (Date t, c)) (filter (\<lambda>(t, c). P (Date t)) (zip xs cs))"
  by (induction xs cs rule: list_induct2) (simp_all add: cumulative_chart_def)

lemma chart_values: "map snd (cumulative_chart rows) = map Cumulative_PnL rows"
  by (simp add: cumulative_chart_def comp_def)

text \<open>
  C1, as the code has it. Whatever the filter (Show All, a week, a month, a quarter, a
  range), the series drawn is the cumulative column of the whole frame, computed at line
  84 before any filter, at the rows the filter keeps: each point carries the running sum
  of all trades of the frame up to its own row, in the order of the frame, and not the
  running sum of the kept trades alone. With Show All every row is kept and the series is
  the running sum of the filtered trades. This holds for every order \<open>df\<close> in which the
  sort by date may leave the trades of one day.
\<close>

theorem cumulative_chart_whole_frame:
  "cumulative_chart (filter_trades show_all time_filter (with_columns df))
     = map (\<lambda>(t, c). (Date t, c))
         (filter (\<lambda>(t, c). selected show_all time_filter (Date t))
            (zip df (cumsum (map Amount df))))
   \<and> map snd (cumulative_chart (filter_trades True time_filter (with_columns df)))
     = cumsum (map Amount (filter_trades True time_filter (with_columns df)))"
proof
  have "length df = length (cumsum (map Amount df))"
    by (simp add: cumsum_def)
  from chart_of_filtered_map2 [OF this]
  show "cumulative_chart (filter_trades show_all time_filter (with_columns df))
     = map (\<lambda>(t, c). (Date t, c))
         (filter (\<lambda>(t, c). selected show_all time_filter (Date t))
            (zip df (cumsum (map Amount df))))"
    by (simp add: filter_trades_selected with_columns_def)
  show "map snd (cumulative_chart (filter_trades True time_filter (with_columns df)))
     = cumsum (map Amount (filter_trades True time_filter (with_columns df)))"
    by (simp add: chart_values filter_trades_def Cumulative_with_columns Amount_with_columns)
qed

lemma weeks_of_journal:
  "to_period_W (2024, 2, 5) = 105560" "to_period_W (2024, 2, 6) = 105560"
  "to_period_W (2024, 2, 12) = 105561" "to_period_W (2024, 2, 14) = 105561"
  by code_simp+

lemma frame_weeks:
  "with_columns journal_weeks =
     [\<lparr>Date = (2024, 2, 5), Type = Custom, R_Value = None, Amount = 100,
        Image_str = None, Notes = [], Cumulative_PnL = 100, Daily_PnL = 100\<rparr>,
      \<lparr>Date = (2024, 2, 6), Type = Custom, R_Value = None, Amount = 31,
        Image_str = None, Notes = [], Cumulative_PnL = 131, Daily_PnL = 31\<rparr>,
      \<lparr>Date = (2024, 2, 12), Type = Custom, R_Value = None, Amount = 2,
        Image_str = None, Notes = [], Cumulative_PnL = 133, Daily_PnL = 2\<rparr>,
      \<lparr>Date = (2024, 2, 14), Type = Custom, R_Value = None, Amount = 4,
        Image_str = None, Notes = [], Cumulative_PnL = 137, Daily_PnL = 4\<rparr>]"
  by (simp add: journal_weeks_def with_columns_def sample_trade_def cumsum_def group_sum_def)

lemma sorted_weeks: "build_df journal_weeks = with_columns journal_weeks"
  by (simp add: build_df_def journal_weeks_def sample_trade_def)

theorem cumulative_chart_whole_frame_witness:
  "build_df journal_weeks = with_columns journal_weeks
   \<and> cumulative_chart (filter_trades False (Weekly 105561) (with_columns journal_weeks))
       = [((2024, 2, 12), 133), ((2024, 2, 14), 137)]
   \<and> cumsum (map Amount (filter_trades False (Weekly 105561) (with_columns journal_weeks))) = [2, 6]
   \<and> map snd (cumulative_chart (filter_trades True (Weekly 105561) (with_columns journal_weeks)))
       = [100, 131, 133, 137]"
proof -
  have z: "zip journal_weeks (cumsum (map Amount journal_weeks))
    = [(sample_trade (2024, 2, 5) 100, 100), (sample_trade (2024, 2, 6) 31, 131),
       (sample_trade (2024, 2, 12) 2, 133), (sample_trade (2024, 2, 14) 4, 137)]"
    by (simp add: journal_weeks_def sample_trade_def cumsum_def)
  have f: "filter_trades False (Weekly 105561) (with_columns journal_weeks)
    = [\<lparr>Date = (2024, 2, 12), Type = Custom, R_Value = None, Amount = 2,
        Image_str = None, Notes = [], Cumulative_PnL = 133, Daily_PnL = 2\<rparr>,
      \<lparr>Date = (2024, 2, 14), Type = Custom, R_Value = None, Amount = 4,
        Image_str = None, Notes = [], Cumulative_PnL = 137, Daily_PnL = 4\<rparr>]"
    by (simp add: frame_weeks filter_trades_def weeks_of_journal)
  have a: "cumsum (map Amount (filter_trades True (Weekly 105561) (with_columns journal_weeks)))
    = [100, 131, 133, 137]"
    by (simp add: frame_weeks filter_trades_def cumsum_def)
  have "cumulative_chart (filter_trades False (Weekly 105561) (with_columns journal_weeks))
     = map (\<lambda>(t, c). (Date t, c))
         (filter (\<lambda>(t, c). selected False (Weekly 105561) (Date t))
            (zip journal_weeks (cumsum (map Amount journal_weeks))))"
    using cumulative_chart_whole_frame [of False "Weekly 105561" journal_weeks]
    by (rule conjunct1)
  then have chart: "cumulative_chart (filter_trades False (Weekly 105561) (with_columns journal_weeks))
     = [((2024, 2, 12), 133), ((2024, 2, 14), 137)]"
    unfolding z by (simp add: selected_def sample_trade_def weeks_of_journal)
  have "map snd (cumulative_chart (filter_trades True (Weekly 105561) (with_columns journal_weeks)))
     = cumsum (map Amount (filter_trades True (Weekly 105561) (with_columns journal_weeks)))"
    using cumulative_chart_whole_frame [of False "Weekly 105561" journal_weeks]
    by (rule conjunct2)
  then have all: "map snd (cumulative_chart (filter_trades True (Weekly 105561) (with_columns journal_weeks)))
       = [100, 131, 133, 137]"
    unfolding a .
  have part: "cumsum (map Amount (filter_trades False (Weekly 105561) (with_columns journal_weeks))) = [2, 6]"
    unfolding f by (simp add: cumsum_def)
  from sorted_weeks chart part all show ?thesis
    by (intro conjI)
qed

text \<open>
  The claim as stated asks for the running sum of the filtered trades alone. With a win
  of 100 in January and one of 50 in February, the range of February shows 150, and the
  running sum of the one filtered trade is 50.
\<close>

theorem cumulative_chart_counterexample:
  "map snd (cumulative_chart
      (filter_trades False (Custom_Range [(2024, 2, 1), (2024, 2, 28)]) (build_df journal_two))) = [150]
   \<and> cumsum (map Amount
      (filter_trades False (Custom_Range [(2024, 2, 1), (2024, 2, 28)]) (build_df journal_two))) = [50]
   \<and> map snd (cumulative_chart
      (filter_trades False (Custom_Range [(2024, 2, 1), (2024, 2, 28)]) (build_df journal_two)))
     \<noteq> cumsum (map Amount
      (filter_trades False (Custom_Range [(2024, 2, 1), (2024, 2, 28)]) (build_df journal_two)))"
  by (simp add: frame_two filter_trades_def cumulative_chart_def cumsum_def)

section \<open>Trade submission\<close>

section \<open>Trade submission\<close>

lemma compute_amount_Custom: "compute_amount Custom r_value pnl = Inr pnl"
  by (simp add: compute_amount_def)

lemma compute_amount_missing:
  "ty \<noteq> Custom \<Longrightarrow> compute_amount ty None pnl = Inr None"
  by (simp add: compute_amount_def label_Custom)

lemma compute_amount_present:
  "ty \<noteq> Custom \<Longrightarrow> \<exists>a. compute_amount ty (Some r) pnl = Inr (Some a)"
  by (cases ty) (simp_all add: compute_amount_def multiplier_of_label)

lemma r_widget_value:
  "number_input (Some (1 / 100)) None entry
     = (case entry of None \<Rightarrow> None | Some r \<Rightarrow> if 1 / 100 \<le> r then Some r else None)"
  by (simp add: number_input_def split: option.splits)

lemma pnl_widget_value:
  "number_input None (Some 0) entry = Some (case entry of None \<Rightarrow> 0 | Some a \<Rightarrow> a)"
  by (simp add: number_input_def split: option.splits)

lemma add_trade_Custom:
  "trade_type f = Custom \<Longrightarrow>
     add_trade trades f =
       Inr (trades @
         [\<lparr>Date = trade_date f, Type = Custom,
           R_Value = number_input (Some (1 / 100)) None (r_entry f),
           Amount = (case pnl_entry f of None \<Rightarrow> 0 | Some a \<Rightarrow> a),
           Image_str = uploaded_image f, Notes = notes_text f\<rparr>])"
  by (simp add: add_trade_def pnl_widget_value compute_amount_Custom Let_def)

lemma add_trade_missing:
  "trade_type f \<noteq> Custom \<Longrightarrow> number_input (Some (1 / 100)) None (r_entry f) = None \<Longrightarrow>
     add_trade trades f = Inl ValidationError"
  by (simp add: add_trade_def compute_amount_missing Let_def)

lemma add_trade_present:
  assumes "trade_type f \<noteq> Custom" "number_input (Some (1 / 100)) None (r_entry f) = Some r"
  shows "\<exists>t. add_trade trades f = Inr (trades @ [t])"
proof -
  obtain a where "compute_amount (trade_type f) (Some r) (number_input None (Some 0) (pnl_entry f)) = Inr (Some a)"
    using compute_amount_present [OF assms(1)] by blast
  then show ?thesis
    using assms by (simp add: add_trade_def Let_def)
qed

text \<open>
  For the types other than Custom, saving fails with the validation message exactly when
  the R value is missing or below the minimum 0.01 of its widget, so whenever it is not
  positive; else one trade is appended.
\<close>

lemma add_trade_other_types:
  assumes "trade_type f \<noteq> Custom"
  shows "(add_trade trades f = Inl ValidationError)
           = (r_entry f = None \<or> (\<exists>r. r_entry f = Some r \<and> r < 1 / 100))"
    and "add_trade trades f \<noteq> Inl ValidationError \<Longrightarrow> \<exists>t. add_trade trades f = Inr (trades @ [t])"
    and "r_entry f = Some r \<Longrightarrow> r \<le> 0 \<Longrightarrow> add_trade trades f = Inl ValidationError"
proof -
  show iff: "(add_trade trades f = Inl ValidationError)
           = (r_entry f = None \<or> (\<exists>r. r_entry f = Some r \<and> r < 1 / 100))"
  proof (cases "number_input (Some (1 / 100)) None (r_entry f)")
    case None
    then have "r_entry f = None \<or> (\<exists>r. r_entry f = Some r \<and> r < 1 / 100)"
      by (auto simp: r_widget_value split: option.splits if_splits)
    with add_trade_missing [OF assms None] show ?thesis by simp
  next
    case (Some r)
    then have "\<not> (r_entry f = None \<or> (\<exists>r. r_entry f = Some r \<and> r < 1 / 100))"
      by (auto simp: r_widget_value split: option.splits if_splits)
    with add_trade_present [OF assms Some, of trades] show ?thesis by auto
  qed
  show "add_trade trades f \<noteq> Inl ValidationError \<Longrightarrow> \<exists>t. add_trade trades f = Inr (trades @ [t])"
    using add_trade_missing [OF assms, of trades] add_trade_present [OF assms, of _ trades]
    by (cases "number_input (Some (1 / 100)) None (r_entry f)") auto
  show "r_entry f = Some r \<Longrightarrow> r \<le> 0 \<Longrightarrow> add_trade trades f = Inl ValidationError"
    using iff by auto
qed

lemma add_trade_examples:
  "add_trade journal_two
     \<lparr>trade_type = W2R, r_entry = None, pnl_entry = None, trade_date = (2024, 3, 1),
      uploaded_image = None, notes_text = []\<rparr> = Inl ValidationError"
  "add_trade journal_two
     \<lparr>trade_type = W2R, r_entry = Some (- 5), pnl_entry = None, trade_date = (2024, 3, 1),
      uploaded_image = None, notes_text = []\<rparr> = Inl ValidationError"
  "add_trade journal_two
     \<lparr>trade_type = L2R, r_entry = Some 0, pnl_entry = None, trade_date = (2024, 3, 1),
      uploaded_image = None, notes_text = []\<rparr> = Inl ValidationError"
  "add_trade journal_two
     \<lparr>trade_type = L1R, r_entry = Some 75, pnl_entry = None, trade_date = (2024, 3, 1),
      uploaded_image = None, notes_text = []\<rparr>
   = Inr (journal_two @
       [\<lparr>Date = (2024, 3, 1), Type = L1R, R_Value = Some 75, Amount = - 75,
         Image_str = None, Notes = []\<rparr>])"
  "add_trade journal_two
     \<lparr>trade_type = Custom, r_entry = None, pnl_entry = Some (- 20), trade_date = (2024, 3, 1),
      uploaded_image = None, notes_text = []\<rparr> = Inr (journal_two @ [sample_trade (2024, 3, 1) (- 20)])"
  by (simp_all add: add_trade_def number_input_def compute_amount_def sample_trade_def
        py_float_def slice_1_m1_def digit_val_def startswith_W_def)

text \<open>
  C4. Saving is to fail, and to commit no trade, when a Custom trade has no amount
  supplied. Line 49 tests \<^verbatim>\<open>amount is None\<close> for this, but the P&L widget of line 31,
  unlike the R widget of line 27, is created without \<^verbatim>\<open>value=None\<close> and never returns
  \<^verbatim>\<open>None\<close>: the form with type Custom, an R value of 50 and no amount entered is saved
  as a trade of amount 0.
\<close>

theorem add_trade_custom_unvalidated:
  "add_trade []
     \<lparr>trade_type = Custom, r_entry = Some 50, pnl_entry = None, trade_date = (2024, 1, 1),
      uploaded_image = None, notes_text = []\<rparr>
   = Inr [\<lparr>Date = (2024, 1, 1), Type = Custom, R_Value = Some 50, Amount = 0,
           Image_str = None, Notes = []\<rparr>]
   \<and> add_trade []
     \<lparr>trade_type = Custom, r_entry = Some 50, pnl_entry = None, trade_date = (2024, 1, 1),
      uploaded_image = None, notes_text = []\<rparr> \<noteq> Inl ValidationError"
  by (simp add: add_trade_def number_input_def compute_amount_def)

section \<open>CSV export\<close>

lemma length_zfill [simp]: "length (zfill w n) = w"
  by (induction w n rule: zfill.induct) simp_all

lemma digit_nth: "k < 10 \<Longrightarrow> ''0123456789'' ! k \<in> set ''0123456789''"
  by (rule nth_mem) simp

lemma zfill_digits: "c \<in> set (zfill w n) \<Longrightarrow> c \<in> set ''0123456789''"
proof (induction w n rule: zfill.induct)
  case (1 n)
  then show ?case by simp
next
  case (2 w n)
  have "''0123456789'' ! (n mod 10) \<in> set ''0123456789''"
    by (rule digit_nth) simp
  with 2 show ?case by auto
qed

lemma isoformat_shape:
  "length (isoformat d) = 10 \<and> isoformat d ! 4 = CHR ''-'' \<and> isoformat d ! 7 = CHR ''-''"
  by (cases d) (simp add: isoformat_def nth_append)

lemma date_cells:
  "map hd (map csv_line rows) = map (\<lambda>d. Str (isoformat d)) (map Date rows)"
  by (simp add: csv_line_def comp_def)

text \<open>
  C6, as the code has it. The export is the whole sorted frame with its two derived
  columns: the header is Date, Type, R_Value, Amount, Image, Notes, Cumulative_PnL,
  Daily_PnL, followed by one line of eight cells per trade of the collection, in date
  order; the date cell is the date as YYYY-MM-DD. The page offers this export of all
  trades whenever the dashboard is shown, whatever the filter.
\<close>

theorem export_csv_table:
  "hd (export_csv trades) =
     [Str ''Date'', Str ''Type'', Str ''R_Value'', Str ''Amount'', Str ''Image'', Str ''Notes'',
      Str ''Cumulative_PnL'', Str ''Daily_PnL'']
   \<and> length (export_csv trades) = 1 + length trades
   \<and> (\<forall>line \<in> set (export_csv trades). length line = 8)
   \<and> map hd (tl (export_csv trades)) = map (\<lambda>t. Str (isoformat (Date t))) (sort_key Date trades)
   \<and> (\<forall>t \<in> set trades.
        length (isoformat (Date t)) = 10 \<and> isoformat (Date t) ! 4 = CHR ''-''
        \<and> isoformat (Date t) ! 7 = CHR ''-'')
   \<and> (dashboard trades show_all time_filter = Dashboard m chart csv \<longrightarrow> csv = export_csv trades)"
proof (intro conjI)
  show "hd (export_csv trades) =
     [Str ''Date'', Str ''Type'', Str ''R_Value'', Str ''Amount'', Str ''Image'', Str ''Notes'',
      Str ''Cumulative_PnL'', Str ''Daily_PnL'']"
    by (simp add: export_csv_def to_csv_def csv_header_def)
  show "length (export_csv trades) = 1 + length trades"
    by (simp add: export_csv_def to_csv_def length_build_df)
  show "\<forall>line \<in> set (export_csv trades). length line = 8"
    by (auto simp: export_csv_def to_csv_def csv_header_def csv_line_def)
  show "map hd (tl (export_csv trades)) = map (\<lambda>t. Str (isoformat (Date t))) (sort_key Date trades)"
    using date_cells [of "build_df trades"]
    by (simp add: export_csv_def to_csv_def Date_build_df comp_def)
  show "\<forall>t \<in> set trades.
        length (isoformat (Date t)) = 10 \<and> isoformat (Date t) ! 4 = CHR ''-''
        \<and> isoformat (Date t) ! 7 = CHR ''-''"
    using isoformat_shape by blast
  show "dashboard trades show_all time_filter = Dashboard m chart csv \<longrightarrow> csv = export_csv trades"
    by (auto simp: dashboard_def export_csv_def Let_def split: if_splits metrics_view.splits)
qed

lemma export_two:
  "export_csv journal_two =
     [[Str ''Date'', Str ''Type'', Str ''R_Value'', Str ''Amount'', Str ''Image'', Str ''Notes'',
       Str ''Cumulative_PnL'', Str ''Daily_PnL''],
      [Str ''2024-01-01'', Str ''Custom $'', Empty, Num 100, Empty, Str [], Num 100, Num 100],
      [Str ''2024-02-01'', Str ''Custom $'', Empty, Num 50, Empty, Str [], Num 150, Num 50]]"
proof -
  have "isoformat (2024, 1, 1) = ''2024-01-01''" "isoformat (2024, 2, 1) = ''2024-02-01''"
    by code_simp+
  then show ?thesis
    by (simp add: export_csv_def to_csv_def frame_two csv_header_def csv_line_def)
qed

lemma journal_two_nonempty: "journal_two \<noteq> []"
  by (simp add: journal_two_def)

lemma dashboard_two_february:
  "dashboard journal_two False (Custom_Range [(2024, 2, 1), (2024, 2, 28)])
     = Dashboard (metrics_block (filter_trades False (Custom_Range [(2024, 2, 1), (2024, 2, 28)])
                    (build_df journal_two)))
         [((2024, 2, 1), 150)] (to_csv (build_df journal_two))"
proof -
  have f: "filter_trades False (Custom_Range [(2024, 2, 1), (2024, 2, 28)]) (build_df journal_two)
    = [\<lparr>Date = (2024, 2, 1), Type = Custom, R_Value = None, Amount = 50,
        Image_str = None, Notes = [], Cumulative_PnL = 150, Daily_PnL = 50\<rparr>]"
    by (simp add: frame_two filter_trades_def)
  show ?thesis
    unfolding dashboard_def Let_def f
    by (simp add: journal_two_nonempty compute_metrics_def cumulative_chart_def)
qed

theorem export_csv_table_witness:
  "export_csv journal_two =
     [[Str ''Date'', Str ''Type'', Str ''R_Value'', Str ''Amount'', Str ''Image'', Str ''Notes'',
       Str ''Cumulative_PnL'', Str ''Daily_PnL''],
      [Str ''2024-01-01'', Str ''Custom $'', Empty, Num 100, Empty, Str [], Num 100, Num 100],
      [Str ''2024-02-01'', Str ''Custom $'', Empty, Num 50, Empty, Str [], Num 150, Num 50]]
   \<and> length (export_csv journal_two) = 1 + length journal_two
   \<and> map length (export_csv journal_two) = [8, 8, 8]
   \<and> dashboard journal_two False (Custom_Range [(2024, 2, 1), (2024, 2, 28)])
       = Dashboard (metrics_block (filter_trades False (Custom_Range [(2024, 2, 1), (2024, 2, 28)])
                      (build_df journal_two)))
           [((2024, 2, 1), 150)] (export_csv journal_two)"
proof -
  note t = export_csv_table [of journal_two False "Custom_Range [(2024, 2, 1), (2024, 2, 28)]"
        "metrics_block (filter_trades False (Custom_Range [(2024, 2, 1), (2024, 2, 28)])
                      (build_df journal_two))" "[((2024, 2, 1), 150)]" "to_csv (build_df journal_two)"]
  from t have len: "length (export_csv journal_two) = 1 + length journal_two"
    by (elim conjE)
  have lines: "map length (export_csv journal_two) = [8, 8, 8]"
    by (simp add: export_two)
  from t dashboard_two_february have "to_csv (build_df journal_two) = export_csv journal_two"
    by (elim conjE) (erule mp)
  with dashboard_two_february have page:
    "dashboard journal_two False (Custom_Range [(2024, 2, 1), (2024, 2, 28)])
       = Dashboard (metrics_block (filter_trades False (Custom_Range [(2024, 2, 1), (2024, 2, 28)])
                      (build_df journal_two)))
           [((2024, 2, 1), 150)] (export_csv journal_two)"
    by (simp only:)
  from export_two len lines page show ?thesis
    by (intro conjI)
qed

text \<open>
  The claim as stated asks for exactly the six columns of the store; the header of the
  export has eight.
\<close>

theorem export_csv_columns_counterexample:
  "hd (export_csv journal_two) \<noteq>
     [Str ''Date'', Str ''Type'', Str ''R_Value'', Str ''Amount'', Str ''Image'', Str ''Notes'']
   \<and> length (hd (export_csv journal_two)) = 8"
  by (simp add: export_two)

end
